theory Spec2Isabelle
  imports Complex_Main
begin

section \<open>JavaScript values and thrown errors\<close>

text \<open>
  A field of a parsed JSON request body. A JSON number is modelled by the rational it
  denotes (every finite double is one); arrays and objects are kept as \<^verbatim>\<open>JObj\<close>
  since no schema of the backend looks inside them.
\<close>

datatype jsval = JUndefined | JNull | JBool bool | JNum rat | JStr string | JObj

text \<open>A thrown or rejected \<^verbatim>\<open>Error\<close>; the routes only ever read its \<^verbatim>\<open>message\<close>.\<close>

datatype js_error = Error (message: string)

text \<open>\<^verbatim>\<open>String.prototype.startsWith\<close>, \<^verbatim>\<open>substring(n)\<close> and \<^verbatim>\<open>includes\<close>.\<close>

fun startsWith :: "string \<Rightarrow> string \<Rightarrow> bool" where
  "startsWith s [] = True"
| "startsWith [] (p # ps) = False"
| "startsWith (c # cs) (p # ps) = (c = p \<and> startsWith cs ps)"

definition substring :: "nat \<Rightarrow> string \<Rightarrow> string" where
  "substring n s = drop n s"

fun includes_str :: "string \<Rightarrow> string \<Rightarrow> bool" where
  "includes_str [] p = (p = [])"
| "includes_str (c # cs) p = (startsWith (c # cs) p \<or> includes_str cs p)"

section \<open>The suggestion generator (routes/suggestions.js)\<close>

record suggestion =
  name :: string
  description :: string

text \<open>
  What \<^verbatim>\<open>suggestions[goal] || suggestions.energy\<close> can evaluate to: one of the arrays
  of the object literal, or a member that the literal inherits from
  \<^verbatim>\<open>Object.prototype\<close> (a function, or the prototype object itself for
  \<^verbatim>\<open>__proto__\<close>), which is truthy and therefore returned as it is.
\<close>

datatype generated = SuggestionList "suggestion list" | PrototypeMember string

definition energy :: "rat \<Rightarrow> bool \<Rightarrow> suggestion list" where
  "energy age isAuthenticated =
    [\<lparr>name = ''Peptide Alpha-E'',
      description = ''Supports natural energy production. '' @
        (if age < 30 then ''Great for young adults building stamina.''
         else if age < 50 then ''Ideal for maintaining energy levels.''
         else ''Helps combat age-related energy decline.'')\<rparr>,
     \<lparr>name = ''Mitochondrial Boost Complex'',
      description = ''Enhances cellular energy metabolism and reduces fatigue.''\<rparr>,
     \<lparr>name = ''Vitality Peptide'',
      description =
        (if isAuthenticated
         then ''Based on your profile, this may help with sustained energy throughout the day.''
         else ''May help with sustained energy throughout the day.'')\<rparr>]"

definition sleep :: "rat \<Rightarrow> bool \<Rightarrow> suggestion list" where
  "sleep age isAuthenticated =
    [\<lparr>name = ''Deep Rest Peptide'',
      description = ''Promotes restful sleep and recovery. '' @
        (if age > 40 then ''Particularly beneficial for age-related sleep improvements.''
         else ''Supports healthy sleep cycles.'')\<rparr>,
     \<lparr>name = ''Circadian Balance Formula'',
      description = ''Helps regulate natural sleep-wake cycles and improves sleep quality.''\<rparr>,
     \<lparr>name = ''Recovery Sleep Support'',
      description =
        (if isAuthenticated then ''Customized for your sleep optimization needs.''
         else ''Supports optimal sleep recovery.'')\<rparr>]"

definition focus :: "rat \<Rightarrow> bool \<Rightarrow> suggestion list" where
  "focus age isAuthenticated =
    [\<lparr>name = ''Cognitive Enhancement Peptide'',
      description = ''Supports mental clarity and focus. '' @
        (if age < 35 then ''Perfect for cognitive performance optimization.''
         else ''Helps maintain sharp mental function.'')\<rparr>,
     \<lparr>name = ''Brain Boost Complex'',
      description = ''Enhances concentration and cognitive processing speed.''\<rparr>,
     \<lparr>name = ''Mental Clarity Support'',
      description =
        (if isAuthenticated then ''Tailored to your cognitive enhancement goals.''
         else ''Supports mental clarity and alertness.'')\<rparr>]"

definition recovery :: "rat \<Rightarrow> bool \<Rightarrow> suggestion list" where
  "recovery age isAuthenticated =
    [\<lparr>name = ''Rapid Recovery Peptide'',
      description = ''Accelerates muscle recovery and repair. '' @
        (if age > 35 then ''Essential for maintaining recovery speed with age.''
         else ''Optimizes post-workout recovery.'')\<rparr>,
     \<lparr>name = ''Tissue Repair Formula'',
      description = ''Supports faster healing and reduces recovery time.''\<rparr>,
     \<lparr>name = ''Athletic Recovery Support'',
      description =
        (if isAuthenticated then ''Designed for your specific recovery needs.''
         else ''Supports comprehensive recovery processes.'')\<rparr>]"

definition weight_management :: "rat \<Rightarrow> bool \<Rightarrow> suggestion list" where
  "weight_management age isAuthenticated =
    [\<lparr>name = ''Metabolic Support Peptide'',
      description = ''Supports healthy metabolism. '' @
        (if age > 30 then ''Helps counter age-related metabolic changes.''
         else ''Optimizes metabolic function.'')\<rparr>,
     \<lparr>name = ''Fat Metabolism Enhancer'',
      description = ''Promotes efficient fat burning and metabolic health.''\<rparr>,
     \<lparr>name = ''Body Composition Support'',
      description =
        (if isAuthenticated then ''Personalized for your weight management journey.''
         else ''Supports healthy body composition.'')\<rparr>]"

definition immune_support :: "rat \<Rightarrow> bool \<Rightarrow> suggestion list" where
  "immune_support age isAuthenticated =
    [\<lparr>name = ''Immune Defense Peptide'',
      description = ''Strengthens immune system function. '' @
        (if age > 50 then ''Critical for age-related immune support.''
         else ''Supports robust immune response.'')\<rparr>,
     \<lparr>name = ''Immunity Boost Complex'',
      description = ''Enhances natural immune defenses and resistance.''\<rparr>,
     \<lparr>name = ''Wellness Protection Formula'',
      description =
        (if isAuthenticated then ''Customized immune support based on your profile.''
         else ''Supports overall immune wellness.'')\<rparr>]"

text \<open>The own properties of the object literal \<^verbatim>\<open>suggestions\<close>, in source order.\<close>

definition suggestions_literal :: "rat \<Rightarrow> bool \<Rightarrow> (string \<times> suggestion list) list" where
  "suggestions_literal age isAuthenticated =
    [(''energy'', energy age isAuthenticated),
     (''sleep'', sleep age isAuthenticated),
     (''focus'', focus age isAuthenticated),
     (''recovery'', recovery age isAuthenticated),
     (''weight_management'', weight_management age isAuthenticated),
     (''immune_support'', immune_support age isAuthenticated)]"

text \<open>
  The property names every ordinary object inherits from \<^verbatim>\<open>Object.prototype\<close>
  (ECMAScript, sections 20.1.3 and B.2.2). An object literal is an ordinary object, so
  a computed member access \<^verbatim>\<open>obj[key]\<close> finds them when \<^verbatim>\<open>key\<close> is no own property.
\<close>

definition object_prototype_keys :: "string list" where
  "object_prototype_keys =
    [''constructor'', ''hasOwnProperty'', ''isPrototypeOf'', ''propertyIsEnumerable'',
     ''toLocaleString'', ''toString'', ''valueOf'', ''__proto__'',
     ''__defineGetter__'', ''__defineSetter__'', ''__lookupGetter__'', ''__lookupSetter__'']"

text \<open>\<^verbatim>\<open>obj[key]\<close>: own property first, then the prototype, else \<^verbatim>\<open>undefined\<close> (None).\<close>

definition lookup_member :: "(string \<times> suggestion list) list \<Rightarrow> string \<Rightarrow> generated option" where
  "lookup_member obj key =
    (case map_of obj key of
       Some v \<Rightarrow> Some (SuggestionList v)
     | None \<Rightarrow> if key \<in> set object_prototype_keys then Some (PrototypeMember key) else None)"

text \<open>
  \<^verbatim>\<open>generateSuggestions(age, goal, isAuthenticated, userHistory)\<close>. The constant
  \<^verbatim>\<open>baseTitle\<close> of the source is computed and never read. Every value \<^verbatim>\<open>lookup_member\<close>
  can find is truthy (a non-null object or a function), so \<^verbatim>\<open>||\<close> takes its right
  operand exactly when the access gives \<^verbatim>\<open>undefined\<close>.
\<close>

definition generateSuggestions :: "rat \<Rightarrow> string \<Rightarrow> bool \<Rightarrow> 'h list \<Rightarrow> generated" where
  "generateSuggestions age goal isAuthenticated userHistory =
    (case lookup_member (suggestions_literal age isAuthenticated) goal of
       Some v \<Rightarrow> v
     | None \<Rightarrow> SuggestionList (energy age isAuthenticated))"

section \<open>Request validation (the Joi schemas of the routes)\<close>

text \<open>
  Joi is an external library; the schemas are the repository's. The model follows Joi 17
  with its default preferences (\<^verbatim>\<open>abortEarly\<close> and \<^verbatim>\<open>convert\<close> on): the keys of an
  object schema are validated in the order they are declared, unknown keys are
  reported after them, and validation stops at the first error. Of an error the routes
  read \<^verbatim>\<open>details[0].message\<close> and \<^verbatim>\<open>details[0].path[0]\<close>.
\<close>

datatype joi_detail = Detail (detail_message: string) (detail_path: string)

text \<open>
  Joi's conversion of a string to a number, taken as a parameter of the model: the
  text is no numeric literal (the value stays a string), it is one that a double cannot
  hold exactly (\<^verbatim>\<open>number.unsafe\<close>), or it converts.
\<close>

datatype coerced = NotNumeric | UnsafeNumber | Numeric rat

definition quoted :: "string \<Rightarrow> string" where
  "quoted label = CHR 0x22 # label @ [CHR 0x22]"

definition MAX_SAFE_INTEGER :: rat where
  "MAX_SAFE_INTEGER = 9007199254740991"

definition age_unsafe :: joi_detail where
  "age_unsafe = Detail (quoted ''age'' @ '' must be a safe number'') ''age''"

definition age_base :: joi_detail where
  "age_base = Detail ''Age must be a number'' ''age''"

text \<open>
  \<^verbatim>\<open>Joi.number().integer().min(18).max(120)\<close> on a number: the base check for safe
  numbers, then the rules in the order of the schema.
\<close>

definition age_rules :: "rat \<Rightarrow> joi_detail + rat" where
  "age_rules n =
    (if n > MAX_SAFE_INTEGER \<or> n < - MAX_SAFE_INTEGER then Inl age_unsafe
     else if of_int \<lfloor>n\<rfloor> \<noteq> n then Inl (Detail ''Age must be a whole number'' ''age'')
     else if n < 18 then Inl (Detail ''Age must be at least 18'' ''age'')
     else if n > 120 then Inl (Detail ''Age must be 120 or less'' ''age'')
     else Inr n)"

definition validate_age :: "(string \<Rightarrow> coerced) \<Rightarrow> jsval \<Rightarrow> joi_detail + rat" where
  "validate_age joi_number v =
    (case v of
       JUndefined \<Rightarrow> Inl (Detail ''Age is required'' ''age'')
     | JNum n \<Rightarrow> age_rules n
     | JStr s \<Rightarrow>
         (case joi_number s of
            NotNumeric \<Rightarrow> Inl age_base
          | UnsafeNumber \<Rightarrow> Inl age_unsafe
          | Numeric n \<Rightarrow> age_rules n)
     | _ \<Rightarrow> Inl age_base)"

definition health_goals :: "string list" where
  "health_goals =
    [''energy'', ''sleep'', ''focus'', ''recovery'', ''weight_management'', ''immune_support'']"

definition healthGoal_only :: joi_detail where
  "healthGoal_only =
    Detail ''Health goal must be one of: energy, sleep, focus, recovery, weight_management, immune_support''
      ''healthGoal''"

text \<open>
  \<^verbatim>\<open>Joi.string().valid(...).required()\<close>: the allowed values are matched before the
  type is looked at, and with \<^verbatim>\<open>valid\<close> any other value is \<^verbatim>\<open>any.only\<close>.
\<close>

definition validate_healthGoal :: "jsval \<Rightarrow> joi_detail + string" where
  "validate_healthGoal v =
    (case v of
       JUndefined \<Rightarrow> Inl (Detail ''Health goal is required'' ''healthGoal'')
     | JStr s \<Rightarrow> if s \<in> set health_goals then Inr s else Inl healthGoal_only
     | _ \<Rightarrow> Inl healthGoal_only)"

text \<open>The body of \<^verbatim>\<open>POST /suggestions\<close>: its two known keys and the names of any others.\<close>

record suggestions_body =
  body_age :: jsval
  body_healthGoal :: jsval
  body_unknownKeys :: "string list"

record suggestions_value =
  value_age :: rat
  value_healthGoal :: string

definition unknown_key :: "string \<Rightarrow> joi_detail" where
  "unknown_key k = Detail (quoted k @ '' is not allowed'') k"

definition suggestionsSchema :: "(string \<Rightarrow> coerced) \<Rightarrow> suggestions_body \<Rightarrow> joi_detail + suggestions_value" where
  "suggestionsSchema joi_number b =
    (case validate_age joi_number (body_age b) of
       Inl e \<Rightarrow> Inl e
     | Inr a \<Rightarrow>
         (case validate_healthGoal (body_healthGoal b) of
            Inl e \<Rightarrow> Inl e
          | Inr g \<Rightarrow>
              (case body_unknownKeys b of
                 k # ks \<Rightarrow> Inl (unknown_key k)
               | [] \<Rightarrow> Inr \<lparr>value_age = a, value_healthGoal = g\<rparr>)))"

section \<open>HTTP requests and responses\<close>

text \<open>
  The decoded payload of a token. \<^verbatim>\<open>jwt.verify\<close> also returns \<^verbatim>\<open>iat\<close>, \<^verbatim>\<open>exp\<close> and
  \<^verbatim>\<open>iss\<close>, which no route reads.
\<close>

record claims =
  claim_id :: nat
  claim_email :: string
  claim_firstName :: string
  claim_lastName :: string

record 'b request =
  req_authorization :: "string option"
  req_body :: 'b
  req_user :: "claims option"

record error_info =
  error_message :: string
  error_code :: string
  error_field :: "string option"
  error_requestId :: "string option"

record meta =
  meta_generatedAt :: nat
  meta_goalCategory :: string
  meta_authenticated :: bool
  meta_timestamp :: nat

datatype payload =
    Failure error_info
  | Suggestions string generated meta
  | Account string claims string
  | Verified claims
  | Unhandled string

record response =
  status :: nat
  json :: payload

definition failure :: "nat \<Rightarrow> string \<Rightarrow> string \<Rightarrow> response" where
  "failure st msg code =
    \<lparr>status = st,
     json = Failure \<lparr>error_message = msg, error_code = code,
                     error_field = None, error_requestId = None\<rparr>\<rparr>"

section \<open>Authentication middleware (middleware/auth.js)\<close>

text \<open>
  The error \<^verbatim>\<open>jwt.verify\<close> hands to its callback; the middleware reads \<^verbatim>\<open>name\<close> and
  logs \<^verbatim>\<open>message\<close>. The verifier itself (signature check against \<^verbatim>\<open>JWT_SECRET\<close>,
  expiry against the clock) is the library's and is a parameter of the middleware.
\<close>

datatype jwt_error = JwtError (jwt_name: string) (jwt_message: string)

type_synonym jwt_verify = "string \<Rightarrow> jwt_error + claims"

text \<open>
  The three ways a presented token fails, and the error jsonwebtoken 9 reports for each
  (its \<^verbatim>\<open>verify.js\<close>; the README's section on errors lists the same): both a token that
  cannot be parsed and a token whose signature does not match are a
  \<^verbatim>\<open>JsonWebTokenError\<close>, told apart by the message only.
\<close>

datatype token_failure = Expired | Malformed | InvalidSignature

fun jsonwebtoken_error :: "token_failure \<Rightarrow> jwt_error" where
  "jsonwebtoken_error Expired = JwtError ''TokenExpiredError'' ''jwt expired''"
| "jsonwebtoken_error Malformed = JwtError ''JsonWebTokenError'' ''jwt malformed''"
| "jsonwebtoken_error InvalidSignature = JwtError ''JsonWebTokenError'' ''invalid signature''"

text \<open>
  A middleware either ends the request with a response (\<^verbatim>\<open>Inl\<close>) or calls
  \<^verbatim>\<open>next()\<close> with the request as it left it (\<^verbatim>\<open>Inr\<close>). \<^verbatim>\<open>!authHeader\<close> holds for a
  missing header and for the empty string.
\<close>

definition verifyToken :: "jwt_verify \<Rightarrow> 'b request \<Rightarrow> response + 'b request" where
  "verifyToken jwt_verify req =
    (case req_authorization req of
       None \<Rightarrow> Inl (failure 401 ''Access token is required'' ''TOKEN_MISSING'')
     | Some authHeader \<Rightarrow>
         if authHeader = [] \<or> \<not> startsWith authHeader ''Bearer ''
         then Inl (failure 401 ''Access token is required'' ''TOKEN_MISSING'')
         else
           (case jwt_verify (substring 7 authHeader) of
              Inl err \<Rightarrow>
                if jwt_name err = ''TokenExpiredError''
                then Inl (failure 401 ''Token has expired'' ''TOKEN_EXPIRED'')
                else if jwt_name err = ''JsonWebTokenError''
                then Inl (failure 401 ''Malformed token'' ''TOKEN_MALFORMED'')
                else Inl (failure 401 ''Invalid token'' ''TOKEN_INVALID'')
            | Inr decoded \<Rightarrow> Inr (req\<lparr>req_user := Some decoded\<rparr>)))"

definition optionalAuth :: "jwt_verify \<Rightarrow> 'b request \<Rightarrow> response + 'b request" where
  "optionalAuth jwt_verify req =
    (case req_authorization req of
       None \<Rightarrow> Inr (req\<lparr>req_user := None\<rparr>)
     | Some authHeader \<Rightarrow>
         if authHeader = [] \<or> \<not> startsWith authHeader ''Bearer ''
         then Inr (req\<lparr>req_user := None\<rparr>)
         else
           (case jwt_verify (substring 7 authHeader) of
              Inl err \<Rightarrow> Inr (req\<lparr>req_user := None\<rparr>)
            | Inr decoded \<Rightarrow> Inr (req\<lparr>req_user := Some decoded\<rparr>)))"

text \<open>
  \<^verbatim>\<open>GET /auth/verify\<close>: \<^verbatim>\<open>verifyToken\<close>, then the handler echoes the claims. The
  handler reads \<^verbatim>\<open>req.user.id\<close>; on a request without \<^verbatim>\<open>user\<close> that is a TypeError,
  which the global error handler of server.js answers with status 500 and the
  error's message.
\<close>

definition get_verify :: "jwt_verify \<Rightarrow> unit request \<Rightarrow> response" where
  "get_verify jwt_verify req =
    (case verifyToken jwt_verify req of
       Inl res \<Rightarrow> res
     | Inr req' \<Rightarrow>
         (case req_user req' of
            Some u \<Rightarrow> \<lparr>status = 200, json = Verified u\<rparr>
          | None \<Rightarrow>
              \<lparr>status = 500,
               json = Unhandled ''Cannot read properties of undefined (reading 'id')''\<rparr>))"

section \<open>The store (config/database.js) and the user service\<close>

text \<open>
  The two tables the routes use, as lists of rows in insertion order, each with its
  \<^verbatim>\<open>AUTOINCREMENT\<close> counter. A point in time (\<^verbatim>\<open>datetime('now')\<close>,
  \<^verbatim>\<open>new Date().toISOString()\<close>) is the instant it denotes. The column
  \<^verbatim>\<open>suggestions\<close> holds the text \<^verbatim>\<open>JSON.stringify\<close> makes of the value and
  \<^verbatim>\<open>getUserSuggestions\<close> parses back; the model keeps the value.
\<close>

record user_row =
  user_id :: nat
  user_email :: string
  user_password :: string
  user_firstName :: string
  user_lastName :: string
  user_createdAt :: nat
  user_updatedAt :: nat

record suggestion_row =
  row_id :: nat
  row_userId :: nat
  row_age :: rat
  row_healthGoal :: string
  row_suggestions :: generated
  row_createdAt :: nat

record database =
  users :: "user_row list"
  users_seq :: nat
  user_suggestions :: "suggestion_row list"
  user_suggestions_seq :: nat

text \<open>
  What a request takes from its surroundings: the clock, the fresh \<^verbatim>\<open>uuidv4()\<close>, and
  whether the driver reports an error to the callback of \<^verbatim>\<open>db.get\<close>, \<^verbatim>\<open>db.run\<close> or
  \<^verbatim>\<open>db.all\<close> (an I/O failure of the embedded database).
\<close>

record io =
  io_now :: nat
  io_uuid :: string
  io_getErr :: bool
  io_runErr :: bool
  io_allErr :: bool

definition getUserByEmail :: "io \<Rightarrow> database \<Rightarrow> string \<Rightarrow> js_error + user_row option" where
  "getUserByEmail io db email =
    (if io_getErr io then Inl (Error ''Database error'')
     else Inr (find (\<lambda>u. user_email u = email) (users db)))"

text \<open>
  \<^verbatim>\<open>INSERT INTO users\<close>: fails on a driver error and on the \<^verbatim>\<open>UNIQUE\<close> constraint of
  the column \<^verbatim>\<open>email\<close>; otherwise appends the row under the next id.
\<close>

definition insert_user :: "io \<Rightarrow> database \<Rightarrow> string \<Rightarrow> string \<Rightarrow> string \<Rightarrow> string \<Rightarrow> database option" where
  "insert_user io db email hashedPassword firstName lastName =
    (if io_runErr io \<or> find (\<lambda>u. user_email u = email) (users db) \<noteq> None then None
     else Some (db\<lparr>users := users db @
                       [\<lparr>user_id = Suc (users_seq db), user_email = email,
                         user_password = hashedPassword, user_firstName = firstName,
                         user_lastName = lastName, user_createdAt = io_now io,
                         user_updatedAt = io_now io\<rparr>],
                    users_seq := Suc (users_seq db)\<rparr>))"

record user_data =
  data_email :: string
  data_password :: string
  data_firstName :: string
  data_lastName :: string

record created_user =
  created_id :: nat
  created_email :: string
  created_firstName :: string
  created_lastName :: string
  created_createdAt :: nat

text \<open>
  \<^verbatim>\<open>createUser(userData)\<close>; \<^verbatim>\<open>bcrypt_hash\<close> is \<^verbatim>\<open>bcrypt.hash(password, 12)\<close>. The
  result is the store after the call and what the promise settles to.
\<close>

definition createUser :: "(string \<Rightarrow> string) \<Rightarrow> io \<Rightarrow> database \<Rightarrow> user_data \<Rightarrow> database \<times> (js_error + created_user)" where
  "createUser bcrypt_hash io db userData =
    (case getUserByEmail io db (data_email userData) of
       Inl error \<Rightarrow> (db, Inl error)
     | Inr (Some existingUser) \<Rightarrow> (db, Inl (Error ''User with this email already exists''))
     | Inr None \<Rightarrow>
         (case insert_user io db (data_email userData) (bcrypt_hash (data_password userData))
                 (data_firstName userData) (data_lastName userData) of
            None \<Rightarrow> (db, Inl (Error ''Failed to create user''))
          | Some db' \<Rightarrow>
              (db', Inr \<lparr>created_id = users_seq db', created_email = data_email userData,
                         created_firstName = data_firstName userData,
                         created_lastName = data_lastName userData,
                         created_createdAt = io_now io\<rparr>)))"

text \<open>The object \<^verbatim>\<open>authenticateUser\<close> returns: the row without its \<^verbatim>\<open>password\<close>.\<close>

record sanitized_user =
  sanitized_id :: nat
  sanitized_email :: string
  sanitized_firstName :: string
  sanitized_lastName :: string
  sanitized_createdAt :: nat
  sanitized_updatedAt :: nat

definition userWithoutPassword :: "user_row \<Rightarrow> sanitized_user" where
  "userWithoutPassword u =
    \<lparr>sanitized_id = user_id u, sanitized_email = user_email u,
     sanitized_firstName = user_firstName u, sanitized_lastName = user_lastName u,
     sanitized_createdAt = user_createdAt u, sanitized_updatedAt = user_updatedAt u\<rparr>"

text \<open>
  \<^verbatim>\<open>authenticateUser(email, password)\<close>; \<^verbatim>\<open>bcrypt_compare\<close> is
  \<^verbatim>\<open>bcrypt.compare(password, hash)\<close>. The \<^verbatim>\<open>catch\<close> logs and rethrows.
\<close>

definition authenticateUser :: "(string \<Rightarrow> string \<Rightarrow> bool) \<Rightarrow> io \<Rightarrow> database \<Rightarrow> string \<Rightarrow> string \<Rightarrow> js_error + sanitized_user" where
  "authenticateUser bcrypt_compare io db email password =
    (case getUserByEmail io db email of
       Inl error \<Rightarrow> Inl error
     | Inr None \<Rightarrow> Inl (Error ''Invalid email or password'')
     | Inr (Some u) \<Rightarrow>
         if \<not> bcrypt_compare password (user_password u)
         then Inl (Error ''Invalid email or password'')
         else Inr (userWithoutPassword u))"

definition saveSuggestion :: "io \<Rightarrow> database \<Rightarrow> nat \<Rightarrow> rat \<Rightarrow> string \<Rightarrow> generated \<Rightarrow> database \<times> (js_error + suggestion_row)" where
  "saveSuggestion io db userId age healthGoal suggestions =
    (if io_runErr io then (db, Inl (Error ''Failed to save suggestion''))
     else
       (let row = \<lparr>row_id = Suc (user_suggestions_seq db), row_userId = userId, row_age = age,
                   row_healthGoal = healthGoal, row_suggestions = suggestions,
                   row_createdAt = io_now io\<rparr>
        in (db\<lparr>user_suggestions := user_suggestions db @ [row],
                user_suggestions_seq := Suc (user_suggestions_seq db)\<rparr>, Inr row)))"

text \<open>
  \<^verbatim>\<open>getUserSuggestions(userId, limit)\<close>: the user's rows, newest first, at most
  \<^verbatim>\<open>limit\<close> of them. SQL leaves the order of rows with equal \<^verbatim>\<open>createdAt\<close> open; the
  model puts the later insertion first.
\<close>

definition getUserSuggestions :: "io \<Rightarrow> database \<Rightarrow> nat \<Rightarrow> nat \<Rightarrow> js_error + suggestion_row list" where
  "getUserSuggestions io db userId limit =
    (if io_allErr io then Inl (Error ''Failed to fetch suggestions'')
     else Inr (take limit (rev (sort_key row_createdAt
                 (filter (\<lambda>r. row_userId r = userId) (user_suggestions db))))))"

section \<open>The analytics service, as the suggestions route sees it\<close>

text \<open>
  The route awaits two methods of the service and catches whatever they throw. Each is
  a function of the service's state that gives the new state and the error thrown, if
  any.
\<close>

record 'a analytics =
  logSuccessfulRequest :: "string \<Rightarrow> rat \<Rightarrow> 'a \<Rightarrow> js_error option \<times> 'a"
  logGoalSelection :: "string \<Rightarrow> rat \<Rightarrow> nat option \<Rightarrow> 'a \<Rightarrow> js_error option \<times> 'a"

text \<open>
  The service of services/analyticsService.js, reduced to its in-memory counters. The
  per-day file is written by \<^verbatim>\<open>updateDailyAnalytics\<close>, which catches every error of
  its own; what can throw is the call of the \<^verbatim>\<open>analytics\<close> logger between the counter
  update and the file update, and \<^verbatim>\<open>logger_fault\<close> says whether it does.
\<close>

record dailyCounters =
  counters_requests :: nat
  counters_goalSelections :: "(string \<times> nat) list"
  counters_errors :: nat
  counters_successfulRequests :: nat

definition bump_goal :: "string \<Rightarrow> (string \<times> nat) list \<Rightarrow> (string \<times> nat) list" where
  "bump_goal goal sel =
    (case map_of sel goal of
       None \<Rightarrow> sel @ [(goal, 1)]
     | Some c \<Rightarrow> map (\<lambda>(g, n). if g = goal then (g, Suc n) else (g, n)) sel)"

definition analyticsService :: "js_error option \<Rightarrow> dailyCounters analytics" where
  "analyticsService logger_fault =
    \<lparr>logSuccessfulRequest = (\<lambda>goal age c.
        (logger_fault,
         c\<lparr>counters_requests := Suc (counters_requests c),
           counters_successfulRequests := Suc (counters_successfulRequests c)\<rparr>)),
     logGoalSelection = (\<lambda>goal age userId c.
        (logger_fault,
         c\<lparr>counters_goalSelections := bump_goal goal (counters_goalSelections c)\<rparr>))\<rparr>"

section \<open>POST /suggestions (routes/suggestions.js)\<close>

text \<open>
  The validation middleware. Its \<^verbatim>\<open>catch\<close> (status 500,
  \<^verbatim>\<open>VALIDATION_SYSTEM_ERROR\<close>) is for a \<^verbatim>\<open>validate\<close> that throws, which Joi does not
  do on a parsed body.
\<close>

definition validateSuggestionsRequest ::
    "(string \<Rightarrow> coerced) \<Rightarrow> suggestions_body request \<Rightarrow> response + suggestions_value request" where
  "validateSuggestionsRequest joi_number req =
    (case suggestionsSchema joi_number (req_body req) of
       Inl error \<Rightarrow>
         Inl \<lparr>status = 400,
              json = Failure \<lparr>error_message = detail_message error,
                              error_code = ''VALIDATION_ERROR'',
                              error_field = Some (detail_path error),
                              error_requestId = None\<rparr>\<rparr>
     | Inr v \<Rightarrow>
         Inr \<lparr>req_authorization = req_authorization req, req_body = v,
              req_user = req_user req\<rparr>)"

record 'a world =
  world_db :: database
  world_analytics :: 'a

text \<open>
  The \<^verbatim>\<open>try\<close> block around the two analytics calls: when the first throws, the second
  is not made; the error is logged and dropped.
\<close>

definition log_analytics :: "'a analytics \<Rightarrow> string \<Rightarrow> rat \<Rightarrow> nat option \<Rightarrow> 'a \<Rightarrow> 'a" where
  "log_analytics service healthGoal age userId a =
    (case logSuccessfulRequest service healthGoal age a of
       (Some error, a') \<Rightarrow> a'
     | (None, a') \<Rightarrow> snd (logGoalSelection service healthGoal age userId a'))"

text \<open>
  The handler. Each \<^verbatim>\<open>try\<close> of the source is a \<^verbatim>\<open>case\<close> whose \<^verbatim>\<open>Inl\<close> branch
  is the \<^verbatim>\<open>catch\<close>. Calls of the application logger are left out. The outer \<^verbatim>\<open>catch\<close>
  (status 500, \<^verbatim>\<open>GENERATION_ERROR\<close>) is entered by nothing in the block that the
  model can fail at: each awaited service call has its own \<^verbatim>\<open>try\<close>, and
  \<^verbatim>\<open>generateSuggestions\<close> does not throw. The two readings of the clock in the
  response are one instant.
\<close>

definition suggestions_handler ::
    "'a analytics \<Rightarrow> io \<Rightarrow> 'a world \<Rightarrow> suggestions_value request \<Rightarrow> 'a world \<times> response" where
  "suggestions_handler service io w req =
    (let requestId = io_uuid io;
         age = value_age (req_body req);
         healthGoal = value_healthGoal (req_body req);
         isAuthenticated = (req_user req \<noteq> None);
         userHistory =
           (case req_user req of
              None \<Rightarrow> []
            | Some u \<Rightarrow>
                (case getUserSuggestions io (world_db w) (claim_id u) 5 of
                   Inl error \<Rightarrow> []
                 | Inr rows \<Rightarrow> rows));
         a' = log_analytics service healthGoal age (map_option claim_id (req_user req))
                (world_analytics w);
         suggestions = generateSuggestions age healthGoal isAuthenticated userHistory;
         db' =
           (case req_user req of
              None \<Rightarrow> world_db w
            | Some u \<Rightarrow>
                (case saveSuggestion io (world_db w) (claim_id u) age healthGoal suggestions of
                   (db1, Inl error) \<Rightarrow> db1
                 | (db1, Inr row) \<Rightarrow> db1))
     in (\<lparr>world_db = db', world_analytics = a'\<rparr>,
         \<lparr>status = 200,
          json = Suggestions requestId suggestions
                   \<lparr>meta_generatedAt = io_now io, meta_goalCategory = healthGoal,
                    meta_authenticated = isAuthenticated, meta_timestamp = io_now io\<rparr>\<rparr>))"

text \<open>The route: \<^verbatim>\<open>optionalAuth\<close>, \<^verbatim>\<open>validateSuggestionsRequest\<close>, the handler.\<close>

definition post_suggestions ::
    "jwt_verify \<Rightarrow> (string \<Rightarrow> coerced) \<Rightarrow> 'a analytics \<Rightarrow> io \<Rightarrow> 'a world \<Rightarrow>
     suggestions_body request \<Rightarrow> 'a world \<times> response" where
  "post_suggestions jwt_verify joi_number service io w req =
    (case optionalAuth jwt_verify req of
       Inl res \<Rightarrow> (w, res)
     | Inr req1 \<Rightarrow>
         (case validateSuggestionsRequest joi_number req1 of
            Inl res \<Rightarrow> (w, res)
          | Inr req2 \<Rightarrow> suggestions_handler service io w req2))"

section \<open>POST /auth/register and POST /auth/login (routes/auth.js)\<close>

text \<open>
  Strings are byte strings here; \<^verbatim>\<open>trim\<close> strips the ASCII white space, and the
  \<^verbatim>\<open>.\<close> of a JavaScript pattern matches anything but a line terminator, so each
  look-ahead of the password pattern searches the first line of the password.
\<close>

definition is_space :: "char \<Rightarrow> bool" where
  "is_space c = (c \<in> set [CHR 0x09, CHR 0x0A, CHR 0x0B, CHR 0x0C, CHR 0x0D, CHR 0x20])"

definition trim :: "string \<Rightarrow> string" where
  "trim s = rev (dropWhile is_space (rev (dropWhile is_space s)))"

definition in_range :: "nat \<Rightarrow> nat \<Rightarrow> char \<Rightarrow> bool" where
  "in_range lo hi c = (lo \<le> of_char c \<and> of_char c \<le> hi)"

definition password_pattern :: "string \<Rightarrow> bool" where
  "password_pattern s =
    (let line = takeWhile (\<lambda>c. c \<noteq> CHR 0x0A \<and> c \<noteq> CHR 0x0D) s
     in list_ex (in_range 97 122) line \<and> list_ex (in_range 65 90) line \<and>
        list_ex (in_range 48 57) line)"

definition string_base :: "string \<Rightarrow> jsval \<Rightarrow> joi_detail + string" where
  "string_base label v =
    (case v of
       JStr s \<Rightarrow>
         if s = [] then Inl (Detail (quoted label @ '' is not allowed to be empty'') label)
         else Inr s
     | _ \<Rightarrow> Inl (Detail (quoted label @ '' must be a string'') label))"

text \<open>\<^verbatim>\<open>joi_email\<close> is Joi's rule \<^verbatim>\<open>email()\<close>, a parameter of the model.\<close>

definition validate_email :: "(string \<Rightarrow> bool) \<Rightarrow> jsval \<Rightarrow> joi_detail + string" where
  "validate_email joi_email v =
    (case v of
       JUndefined \<Rightarrow> Inl (Detail ''Email is required'' ''email'')
     | _ \<Rightarrow>
         (case string_base ''email'' v of
            Inl e \<Rightarrow> Inl e
          | Inr s \<Rightarrow>
              if joi_email s then Inr s
              else Inl (Detail ''Please provide a valid email address'' ''email'')))"

definition validate_password :: "jsval \<Rightarrow> joi_detail + string" where
  "validate_password v =
    (case v of
       JUndefined \<Rightarrow> Inl (Detail ''Password is required'' ''password'')
     | _ \<Rightarrow>
         (case string_base ''password'' v of
            Inl e \<Rightarrow> Inl e
          | Inr s \<Rightarrow>
              if length s < 8
              then Inl (Detail ''Password must be at least 8 characters long'' ''password'')
              else if \<not> password_pattern s
              then Inl (Detail ''Password must contain at least one uppercase letter, one lowercase letter, and one number'' ''password'')
              else Inr s))"

text \<open>
  \<^verbatim>\<open>Joi.string().trim().min(1).max(50).optional()\<close>: a string is trimmed before it
  is checked; the two messages are the schema's for \<^verbatim>\<open>string.min\<close> and
  \<^verbatim>\<open>string.max\<close>.
\<close>

definition validate_name :: "string \<Rightarrow> string \<Rightarrow> string \<Rightarrow> jsval \<Rightarrow> joi_detail + string option" where
  "validate_name label min_message max_message v =
    (case v of
       JUndefined \<Rightarrow> Inr None
     | JStr s \<Rightarrow>
         (case string_base label (JStr (trim s)) of
            Inl e \<Rightarrow> Inl e
          | Inr t \<Rightarrow>
              if length t < 1 then Inl (Detail min_message label)
              else if length t > 50 then Inl (Detail max_message label)
              else Inr (Some t))
     | _ \<Rightarrow> map_sum id Some (string_base label v))"

record register_body =
  register_email :: jsval
  register_password :: jsval
  register_firstName :: jsval
  register_lastName :: jsval
  register_unknownKeys :: "string list"

record register_value =
  registered_email :: string
  registered_password :: string
  registered_firstName :: "string option"
  registered_lastName :: "string option"

definition registerSchema :: "(string \<Rightarrow> bool) \<Rightarrow> register_body \<Rightarrow> joi_detail + register_value" where
  "registerSchema joi_email b =
    (case validate_email joi_email (register_email b) of
       Inl e \<Rightarrow> Inl e
     | Inr email \<Rightarrow>
    (case validate_password (register_password b) of
       Inl e \<Rightarrow> Inl e
     | Inr password \<Rightarrow>
    (case validate_name ''firstName'' ''First name cannot be empty''
            ''First name cannot exceed 50 characters'' (register_firstName b) of
       Inl e \<Rightarrow> Inl e
     | Inr firstName \<Rightarrow>
    (case validate_name ''lastName'' ''Last name cannot be empty''
            ''Last name cannot exceed 50 characters'' (register_lastName b) of
       Inl e \<Rightarrow> Inl e
     | Inr lastName \<Rightarrow>
    (case register_unknownKeys b of
       k # ks \<Rightarrow> Inl (unknown_key k)
     | [] \<Rightarrow> Inr \<lparr>registered_email = email, registered_password = password,
                  registered_firstName = firstName, registered_lastName = lastName\<rparr>)))))"

text \<open>The external functions of the two routes: Joi's email rule, bcrypt, and \<^verbatim>\<open>jwt.sign\<close>.\<close>

record library =
  lib_joi_email :: "string \<Rightarrow> bool"
  lib_bcrypt_hash :: "string \<Rightarrow> string"
  lib_bcrypt_compare :: "string \<Rightarrow> string \<Rightarrow> bool"
  lib_jwt_sign :: "claims \<Rightarrow> string"

text \<open>\<^verbatim>\<open>firstName || ''\<close>: a missing name is the empty string.\<close>

definition or_empty :: "string option \<Rightarrow> string" where
  "or_empty x = (case x of None \<Rightarrow> [] | Some t \<Rightarrow> t)"

text \<open>
  \<^verbatim>\<open>POST /auth/register\<close>, behind the rate limiter \<^verbatim>\<open>authLimiter\<close>, which is not part
  of the model: the function describes a request the limiter lets through.
\<close>

definition register :: "library \<Rightarrow> io \<Rightarrow> database \<Rightarrow> register_body \<Rightarrow> database \<times> response" where
  "register lib io db body =
    (case registerSchema (lib_joi_email lib) body of
       Inl error \<Rightarrow> (db, failure 400 (detail_message error) ''VALIDATION_ERROR'')
     | Inr v \<Rightarrow>
         (case createUser (lib_bcrypt_hash lib) io db
                 \<lparr>data_email = registered_email v, data_password = registered_password v,
                  data_firstName = or_empty (registered_firstName v),
                  data_lastName = or_empty (registered_lastName v)\<rparr> of
            (db', Inr u) \<Rightarrow>
              (let payload = \<lparr>claim_id = created_id u, claim_email = created_email u,
                              claim_firstName = created_firstName u,
                              claim_lastName = created_lastName u\<rparr>
               in (db', \<lparr>status = 201,
                         json = Account ''User registered successfully'' payload
                                  (lib_jwt_sign lib payload)\<rparr>))
          | (db', Inl error) \<Rightarrow>
              if includes_str (message error) ''already exists''
              then (db', failure 409 ''An account with this email already exists'' ''EMAIL_EXISTS'')
              else (db', failure 500 ''Failed to register user. Please try again.''
                           ''REGISTRATION_ERROR'')))"

record login_body =
  login_email :: jsval
  login_password :: jsval
  login_unknownKeys :: "string list"

definition loginSchema :: "(string \<Rightarrow> bool) \<Rightarrow> login_body \<Rightarrow> joi_detail + string \<times> string" where
  "loginSchema joi_email b =
    (case validate_email joi_email (login_email b) of
       Inl e \<Rightarrow> Inl e
     | Inr email \<Rightarrow>
    (case (case login_password b of
             JUndefined \<Rightarrow> Inl (Detail ''Password is required'' ''password'')
           | v \<Rightarrow> string_base ''password'' v) of
       Inl e \<Rightarrow> Inl e
     | Inr password \<Rightarrow>
    (case login_unknownKeys b of
       k # ks \<Rightarrow> Inl (unknown_key k)
     | [] \<Rightarrow> Inr (email, password))))"

definition login :: "library \<Rightarrow> io \<Rightarrow> database \<Rightarrow> login_body \<Rightarrow> response" where
  "login lib io db body =
    (case loginSchema (lib_joi_email lib) body of
       Inl error \<Rightarrow> failure 400 (detail_message error) ''VALIDATION_ERROR''
     | Inr (email, password) \<Rightarrow>
         (case authenticateUser (lib_bcrypt_compare lib) io db email password of
            Inr u \<Rightarrow>
              (let payload = \<lparr>claim_id = sanitized_id u, claim_email = sanitized_email u,
                              claim_firstName = sanitized_firstName u,
                              claim_lastName = sanitized_lastName u\<rparr>
               in \<lparr>status = 200,
                   json = Account ''Login successful'' payload (lib_jwt_sign lib payload)\<rparr>)
          | Inl error \<Rightarrow>
              if includes_str (message error) ''Invalid email or password''
              then failure 401 ''Invalid email or password'' ''INVALID_CREDENTIALS''
              else failure 500 ''Login failed. Please try again.'' ''LOGIN_ERROR''))"

section \<open>A concrete setting for running the model\<close>

text \<open>
  One user, Ada, with id 1; a verifier that accepts the token \<^verbatim>\<open>ada\<close> as hers and
  reports every other token as malformed; a clock, a request id and a database without
  I/O failures.
\<close>

definition ada :: claims where
  "ada = \<lparr>claim_id = 1, claim_email = ''ada@x.com'', claim_firstName = ''Ada'',
          claim_lastName = ''L''\<rparr>"

definition verify_ada :: jwt_verify where
  "verify_ada token = (if token = ''ada'' then Inr ada else Inl (jsonwebtoken_error Malformed))"

definition no_conversion :: "string \<Rightarrow> coerced" where
  "no_conversion s = NotNumeric"

definition calm :: io where
  "calm = \<lparr>io_now = 1700000000, io_uuid = ''7f9c'', io_getErr = False, io_runErr = False,
           io_allErr = False\<rparr>"

definition stormy :: io where
  "stormy = \<lparr>io_now = 1700000000, io_uuid = ''7f9c'', io_getErr = True, io_runErr = True,
             io_allErr = True\<rparr>"

definition empty_database :: database where
  "empty_database = \<lparr>users = [], users_seq = 0, user_suggestions = [], user_suggestions_seq = 0\<rparr>"

definition fresh_counters :: dailyCounters where
  "fresh_counters = \<lparr>counters_requests = 0, counters_goalSelections = [], counters_errors = 0,
                     counters_successfulRequests = 0\<rparr>"

definition fresh_world :: "dailyCounters world" where
  "fresh_world = \<lparr>world_db = empty_database, world_analytics = fresh_counters\<rparr>"

definition suggestions_request :: "string option \<Rightarrow> rat \<Rightarrow> string \<Rightarrow> suggestions_body request" where
  "suggestions_request auth age goal =
    \<lparr>req_authorization = auth,
     req_body = \<lparr>body_age = JNum age, body_healthGoal = JStr goal, body_unknownKeys = []\<rparr>,
     req_user = None\<rparr>"

definition verify_request :: "string option \<Rightarrow> unit request" where
  "verify_request auth = \<lparr>req_authorization = auth, req_body = (), req_user = None\<rparr>"

definition plain_library :: library where
  "plain_library =
    \<lparr>lib_joi_email = (\<lambda>s. CHR ''@'' \<in> set s),
     lib_bcrypt_hash = (\<lambda>p. ''$2a$12$'' @ p),
     lib_bcrypt_compare = (\<lambda>p h. h = ''$2a$12$'' @ p),
     lib_jwt_sign = (\<lambda>c. ''token-of-'' @ claim_email c)\<rparr>"

definition register_request :: "string \<Rightarrow> string \<Rightarrow> register_body" where
  "register_request email password =
    \<lparr>register_email = JStr email, register_password = JStr password,
     register_firstName = JUndefined, register_lastName = JUndefined,
     register_unknownKeys = []\<rparr>"

text \<open>
  A request that presents no bearer token: no Authorization header, or one that does
  not start with \<^verbatim>\<open>Bearer \<close>.
\<close>

definition anonymous :: "'b request \<Rightarrow> bool" where
  "anonymous req =
    (case req_authorization req of None \<Rightarrow> True | Some h \<Rightarrow> \<not> startsWith h ''Bearer '')"

text \<open>The 400 response of the validation middleware for an error on \<^verbatim>\<open>age\<close>.\<close>

definition age_rejection :: "string \<Rightarrow> response" where
  "age_rejection msg =
    \<lparr>status = 400,
     json = Failure \<lparr>error_message = msg, error_code = ''VALIDATION_ERROR'',
                     error_field = Some ''age'', error_requestId = None\<rparr>\<rparr>"


text \<open>The shape the route promises for a list of suggestions.\<close>

definition well_formed :: "suggestion list \<Rightarrow> bool" where
  "well_formed xs =
    (length xs = 3 \<and> list_all (\<lambda>s. name s \<noteq> [] \<and> description s \<noteq> []) xs)"

section \<open>Properties of the generator\<close>

lemma health_goals_cases:
  assumes "g \<in> set health_goals"
  shows "g = ''energy'' \<or> g = ''sleep'' \<or> g = ''focus'' \<or> g = ''recovery'' \<or>
         g = ''weight_management'' \<or> g = ''immune_support''"
  using assms by (simp only: health_goals_def set_simps insert_iff empty_iff simp_thms)

lemma well_formed_lists:
  "well_formed (energy a auth)" "well_formed (sleep a auth)" "well_formed (focus a auth)"
  "well_formed (recovery a auth)" "well_formed (weight_management a auth)"
  "well_formed (immune_support a auth)"
  by (simp_all add: well_formed_def energy_def sleep_def focus_def recovery_def
        weight_management_def immune_support_def)

lemma generateSuggestions_own:
  "generateSuggestions a ''energy'' auth h = SuggestionList (energy a auth)"
  "generateSuggestions a ''sleep'' auth h = SuggestionList (sleep a auth)"
  "generateSuggestions a ''focus'' auth h = SuggestionList (focus a auth)"
  "generateSuggestions a ''recovery'' auth h = SuggestionList (recovery a auth)"
  "generateSuggestions a ''weight_management'' auth h = SuggestionList (weight_management a auth)"
  "generateSuggestions a ''immune_support'' auth h = SuggestionList (immune_support a auth)"
  by (simp_all add: generateSuggestions_def lookup_member_def suggestions_literal_def)

lemma generateSuggestions_enumerated:
  assumes "g \<in> set health_goals"
  shows "\<exists>xs. generateSuggestions a g auth h = SuggestionList xs \<and> well_formed xs"
  using health_goals_cases [OF assms]
  by (elim disjE)
     (simp_all only: generateSuggestions_own well_formed_lists generated.inject simp_thms ex_simps)

text \<open>
  C10. The output of generateSuggestions does not depend on its userHistory argument:
  for every age, goal and authentication state and any two histories h1 and h2 the two
  calls return the same value.
\<close>

theorem generateSuggestions_history_independent:
  "generateSuggestions age goal isAuthenticated h1 =
   generateSuggestions age goal isAuthenticated h2"
  by (simp add: generateSuggestions_def)

text \<open>
  C8. For every goal that is neither one of the six health goals nor the name of a
  property that objects inherit from \<^verbatim>\<open>Object.prototype\<close>, and for every age and
  authentication state, generateSuggestions returns the energy list. (For every string
  outside the six the statement fails: see the evaluation at \<^verbatim>\<open>constructor\<close> below.
  The route never calls the generator with such a goal, the schema admits the six only.)
\<close>

theorem generateSuggestions_fallback:
  assumes "goal \<notin> set health_goals" and "goal \<notin> set object_prototype_keys"
  shows "generateSuggestions age goal isAuthenticated h = SuggestionList (energy age isAuthenticated)"
proof -
  have "map_of (suggestions_literal age isAuthenticated) goal = None"
    using assms(1) by (simp add: suggestions_literal_def health_goals_def)
  then show ?thesis
    using assms(2) by (simp add: generateSuggestions_def lookup_member_def)
qed

theorem generateSuggestions_fallback_witness:
  "generateSuggestions 25 ''longevity'' False ([]::unit list) = SuggestionList (energy 25 False) \<and>
   generateSuggestions 64 ''LONGEVITY'' True ([]::unit list) = SuggestionList (energy 64 True)"
  using generateSuggestions_fallback [of "''longevity''" 25 False "[]::unit list"]
    generateSuggestions_fallback [of "''LONGEVITY''" 64 True "[]::unit list"]
  by (simp add: health_goals_def object_prototype_keys_def)

text \<open>
  The goal \<^verbatim>\<open>constructor\<close> is none of the six, and the member access finds the
  property the literal inherits: the function returns that and not the energy list.
\<close>

theorem generateSuggestions_inherited_member:
  "''constructor'' \<notin> set health_goals \<and>
   generateSuggestions 25 ''constructor'' False ([]::unit list) = PrototypeMember ''constructor'' \<and>
   generateSuggestions 25 ''constructor'' False ([]::unit list) \<noteq> SuggestionList (energy 25 False)"
  by (simp add: generateSuggestions_def lookup_member_def suggestions_literal_def health_goals_def
        object_prototype_keys_def)

section \<open>Properties of POST /suggestions\<close>

lemma optionalAuth_next:
  "\<exists>u. optionalAuth jv req = Inr (req\<lparr>req_user := u\<rparr>)"
  by (auto simp: optionalAuth_def split: option.splits sum.splits)

lemma age_rules_accepts:
  assumes "18 \<le> n" "n \<le> 120"
  shows "age_rules (of_int n) = Inr (of_int n)"
  using assms by (simp add: age_rules_def MAX_SAFE_INTEGER_def)

lemma suggestionsSchema_accepts:
  assumes "body_age b = JNum (of_int n)" "18 \<le> n" "n \<le> 120"
      and "body_healthGoal b = JStr g" "g \<in> set health_goals"
      and "body_unknownKeys b = []"
  shows "suggestionsSchema jn b = Inr \<lparr>value_age = of_int n, value_healthGoal = g\<rparr>"
  using assms
  by (simp add: suggestionsSchema_def validate_age_def validate_healthGoal_def age_rules_accepts)

text \<open>What the handler answers, whatever the services do.\<close>

lemma suggestions_handler_response:
  "snd (suggestions_handler service io w req) =
     \<lparr>status = 200,
      json = Suggestions (io_uuid io)
               (generateSuggestions (value_age (req_body req)) (value_healthGoal (req_body req))
                  (req_user req \<noteq> None) ([]::unit list))
               \<lparr>meta_generatedAt = io_now io, meta_goalCategory = value_healthGoal (req_body req),
                meta_authenticated = (req_user req \<noteq> None), meta_timestamp = io_now io\<rparr>\<rparr>"
  by (simp add: suggestions_handler_def Let_def generateSuggestions_def)

text \<open>
  C1. For every integer age from 18 to 120, every health goal of the six and either
  authentication state (any Authorization header, any verdict of the verifier), POST
  /suggestions answers 200 with a list of exactly three suggestions, each with a
  non-empty name and a non-empty description. The body holds the two keys only.
\<close>

theorem post_suggestions_three_records:
  assumes "body_age (req_body req) = JNum (of_int n)" "18 \<le> n" "n \<le> 120"
      and "body_healthGoal (req_body req) = JStr g" "g \<in> set health_goals"
      and "body_unknownKeys (req_body req) = []"
  shows "\<exists>w' rid xs m.
           post_suggestions jv jn service io w req =
             (w', \<lparr>status = 200, json = Suggestions rid (SuggestionList xs) m\<rparr>) \<and>
           length xs = 3 \<and> (\<forall>s \<in> set xs. name s \<noteq> [] \<and> description s \<noteq> [])"
proof -
  obtain u where auth: "optionalAuth jv req = Inr (req\<lparr>req_user := u\<rparr>)"
    using optionalAuth_next by blast
  let ?v = "\<lparr>value_age = of_int n, value_healthGoal = g\<rparr>"
  let ?req2 = "\<lparr>req_authorization = req_authorization req, req_body = ?v, req_user = u\<rparr>"
  have valid: "validateSuggestionsRequest jn (req\<lparr>req_user := u\<rparr>) = Inr ?req2"
    using assms by (simp add: validateSuggestionsRequest_def suggestionsSchema_accepts)
  obtain xs where xs: "generateSuggestions (of_int n) g (u \<noteq> None) ([]::unit list) = SuggestionList xs"
      and wf: "well_formed xs"
    using generateSuggestions_enumerated [OF assms(5)] by blast
  have route: "post_suggestions jv jn service io w req = suggestions_handler service io w ?req2"
    by (simp add: post_suggestions_def auth valid)
  have "snd (suggestions_handler service io w ?req2) =
      \<lparr>status = 200, json = Suggestions (io_uuid io) (SuggestionList xs)
         \<lparr>meta_generatedAt = io_now io, meta_goalCategory = g,
          meta_authenticated = (u \<noteq> None), meta_timestamp = io_now io\<rparr>\<rparr>"
    by (simp add: suggestions_handler_response xs del: not_None_eq)
  then have "post_suggestions jv jn service io w req =
      (fst (suggestions_handler service io w ?req2),
       \<lparr>status = 200, json = Suggestions (io_uuid io) (SuggestionList xs)
         \<lparr>meta_generatedAt = io_now io, meta_goalCategory = g,
          meta_authenticated = (u \<noteq> None), meta_timestamp = io_now io\<rparr>\<rparr>)"
    by (simp add: route prod_eq_iff)
  moreover have "length xs = 3" "\<forall>s \<in> set xs. name s \<noteq> [] \<and> description s \<noteq> []"
    using wf by (simp_all add: well_formed_def list_all_iff)
  ultimately show ?thesis by blast
qed

theorem post_suggestions_three_records_witness:
  "\<exists>w' rid xs m.
     post_suggestions verify_ada no_conversion (analyticsService None) calm fresh_world
       (suggestions_request (Some ''Bearer ada'') 25 ''energy'') =
       (w', \<lparr>status = 200, json = Suggestions rid (SuggestionList xs) m\<rparr>) \<and>
     length xs = 3 \<and> list_all (\<lambda>s. name s \<noteq> [] \<and> description s \<noteq> []) xs"
  using post_suggestions_three_records
    [of "suggestions_request (Some ''Bearer ada'') 25 ''energy''" 25 "''energy''"
        verify_ada no_conversion "analyticsService None" calm fresh_world]
  by (simp add: suggestions_request_def health_goals_def list_all_iff)

lemma optionalAuth_anonymous:
  "anonymous req \<Longrightarrow> optionalAuth jv req = Inr (req\<lparr>req_user := None\<rparr>)"
  by (simp add: anonymous_def optionalAuth_def split: option.splits)

lemma suggestions_handler_anonymous_db:
  "req_user req = None \<Longrightarrow> world_db (fst (suggestions_handler service io w req)) = world_db w"
  by (simp add: suggestions_handler_def Let_def)

lemma example_body_valid:
  "suggestionsSchema no_conversion (req_body (suggestions_request auth 25 ''energy'')) =
     Inr \<lparr>value_age = 25, value_healthGoal = ''energy''\<rparr>"
  by (simp add: suggestions_request_def suggestionsSchema_def validate_age_def age_rules_def
        MAX_SAFE_INTEGER_def validate_healthGoal_def health_goals_def)

text \<open>
  C3. A valid request to POST /suggestions that presents no bearer token is answered
  200 with meta.authenticated false, and the table user_suggestions (indeed the whole
  database) is after the request what it was before: no history row is inserted.
\<close>

theorem anonymous_request_saves_nothing:
  assumes "anonymous req" and "suggestionsSchema jn (req_body req) = Inr v"
  shows "\<exists>w' rid sg m.
           post_suggestions jv jn service io w req =
             (w', \<lparr>status = 200, json = Suggestions rid sg m\<rparr>) \<and>
           meta_authenticated m = False \<and>
           user_suggestions (world_db w') = user_suggestions (world_db w) \<and>
           world_db w' = world_db w"
proof -
  let ?req2 = "\<lparr>req_authorization = req_authorization req, req_body = v, req_user = None\<rparr>"
  have route: "post_suggestions jv jn service io w req = suggestions_handler service io w ?req2"
    using assms
    by (simp add: post_suggestions_def optionalAuth_anonymous validateSuggestionsRequest_def)
  have res: "snd (suggestions_handler service io w ?req2) =
      \<lparr>status = 200,
       json = Suggestions (io_uuid io)
                (generateSuggestions (value_age v) (value_healthGoal v) False ([]::unit list))
                \<lparr>meta_generatedAt = io_now io, meta_goalCategory = value_healthGoal v,
                 meta_authenticated = False, meta_timestamp = io_now io\<rparr>\<rparr>"
    by (simp add: suggestions_handler_response)
  have db: "world_db (fst (suggestions_handler service io w ?req2)) = world_db w"
    by (simp add: suggestions_handler_anonymous_db)
  have "post_suggestions jv jn service io w req =
      (fst (suggestions_handler service io w ?req2),
       \<lparr>status = 200,
       json = Suggestions (io_uuid io)
                (generateSuggestions (value_age v) (value_healthGoal v) False ([]::unit list))
                \<lparr>meta_generatedAt = io_now io, meta_goalCategory = value_healthGoal v,
                 meta_authenticated = False, meta_timestamp = io_now io\<rparr>\<rparr>)"
    using res by (simp add: route prod_eq_iff)
  with db show ?thesis by force
qed

theorem anonymous_request_saves_nothing_witness:
  "\<exists>w' rid sg m.
     post_suggestions verify_ada no_conversion (analyticsService None) calm fresh_world
       (suggestions_request None 40 ''sleep'') =
       (w', \<lparr>status = 200, json = Suggestions rid sg m\<rparr>) \<and>
     meta_authenticated m = False \<and> user_suggestions (world_db w') = [] \<and>
     world_db w' = empty_database"
  using anonymous_request_saves_nothing
    [of "suggestions_request None 40 ''sleep''" no_conversion
        "\<lparr>value_age = 40, value_healthGoal = ''sleep''\<rparr>" verify_ada "analyticsService None"
        calm fresh_world]
  by (simp add: anonymous_def suggestions_request_def suggestionsSchema_def validate_age_def
        age_rules_def MAX_SAFE_INTEGER_def validate_healthGoal_def health_goals_def
        fresh_world_def empty_database_def)

text \<open>
  C4. For a valid request to POST /suggestions the response does not depend on the
  analytics service or on the database: whatever the two analytics calls do (return or
  throw) and whether or not the driver fails the history query and the insert, the
  response is the same 200 with the generated suggestions. So a failure of analytics
  logging or of saving to the history is never surfaced: the response equals the one
  of a run in which both succeed (same clock and request id).
\<close>

theorem side_effect_failures_not_surfaced:
  assumes "suggestionsSchema jn (req_body req) = Inr v"
      and "io_now io1 = io_now io2" and "io_uuid io1 = io_uuid io2"
  shows "snd (post_suggestions jv jn service1 io1 w1 req) =
           snd (post_suggestions jv jn service2 io2 w2 req) \<and>
         (\<exists>isAuthenticated. snd (post_suggestions jv jn service1 io1 w1 req) =
            \<lparr>status = 200,
             json = Suggestions (io_uuid io1)
                      (generateSuggestions (value_age v) (value_healthGoal v) isAuthenticated
                         ([]::unit list))
                      \<lparr>meta_generatedAt = io_now io1, meta_goalCategory = value_healthGoal v,
                       meta_authenticated = isAuthenticated, meta_timestamp = io_now io1\<rparr>\<rparr>)"
proof -
  obtain u where auth: "optionalAuth jv req = Inr (req\<lparr>req_user := u\<rparr>)"
    using optionalAuth_next by blast
  let ?req2 = "\<lparr>req_authorization = req_authorization req, req_body = v, req_user = u\<rparr>"
  have route: "post_suggestions jv jn service io w req = suggestions_handler service io w ?req2"
    for service :: "'x analytics" and io and w :: "'x world"
    using assms(1) by (simp add: post_suggestions_def auth validateSuggestionsRequest_def)
  have one: "snd (post_suggestions jv jn service1 io1 w1 req) =
            \<lparr>status = 200,
             json = Suggestions (io_uuid io1)
                      (generateSuggestions (value_age v) (value_healthGoal v) (u \<noteq> None) ([]::unit list))
                      \<lparr>meta_generatedAt = io_now io1, meta_goalCategory = value_healthGoal v,
                       meta_authenticated = (u \<noteq> None), meta_timestamp = io_now io1\<rparr>\<rparr>"
    by (simp add: route suggestions_handler_response del: not_None_eq)
  have two: "snd (post_suggestions jv jn service2 io2 w2 req) =
            \<lparr>status = 200,
             json = Suggestions (io_uuid io2)
                      (generateSuggestions (value_age v) (value_healthGoal v) (u \<noteq> None) ([]::unit list))
                      \<lparr>meta_generatedAt = io_now io2, meta_goalCategory = value_healthGoal v,
                       meta_authenticated = (u \<noteq> None), meta_timestamp = io_now io2\<rparr>\<rparr>"
    by (simp add: route suggestions_handler_response del: not_None_eq)
  show ?thesis
  proof (intro conjI exI [of _ "u \<noteq> None"])
    show "snd (post_suggestions jv jn service1 io1 w1 req) =
          snd (post_suggestions jv jn service2 io2 w2 req)"
      by (simp only: one two assms(2,3))
  next
    show "snd (post_suggestions jv jn service1 io1 w1 req) =
            \<lparr>status = 200,
             json = Suggestions (io_uuid io1)
                      (generateSuggestions (value_age v) (value_healthGoal v) (u \<noteq> None)
                         ([]::unit list))
                      \<lparr>meta_generatedAt = io_now io1, meta_goalCategory = value_healthGoal v,
                       meta_authenticated = (u \<noteq> None), meta_timestamp = io_now io1\<rparr>\<rparr>"
      by (rule one)
  qed
qed

theorem side_effect_failures_not_surfaced_witness:
  "snd (post_suggestions verify_ada no_conversion (analyticsService (Some (Error ''sink down'')))
          stormy fresh_world (suggestions_request (Some ''Bearer ada'') 25 ''energy'')) =
   snd (post_suggestions verify_ada no_conversion (analyticsService None) calm fresh_world
          (suggestions_request (Some ''Bearer ada'') 25 ''energy'')) \<and>
   status (snd (post_suggestions verify_ada no_conversion
          (analyticsService (Some (Error ''sink down''))) stormy fresh_world
          (suggestions_request (Some ''Bearer ada'') 25 ''energy''))) = 200 \<and>
   saveSuggestion stormy empty_database 1 25 ''energy'' (SuggestionList (energy 25 True)) =
     (empty_database, Inl (Error ''Failed to save suggestion'')) \<and>
   fst (logSuccessfulRequest (analyticsService (Some (Error ''sink down''))) ''energy'' 25
          fresh_counters) = Some (Error ''sink down'')"
proof -
  have clock: "io_now stormy = io_now calm" "io_uuid stormy = io_uuid calm"
    by (simp_all add: stormy_def calm_def)
  from side_effect_failures_not_surfaced
      [OF example_body_valid [of "Some ''Bearer ada''"] clock,
       where jv = verify_ada and ?service1.0 = "analyticsService (Some (Error ''sink down''))"
         and ?w1.0 = fresh_world and ?service2.0 = "analyticsService None" and ?w2.0 = fresh_world]
  obtain a where same: "snd (post_suggestions verify_ada no_conversion (analyticsService (Some (Error ''sink down'')))
          stormy fresh_world (suggestions_request (Some ''Bearer ada'') 25 ''energy'')) =
      snd (post_suggestions verify_ada no_conversion (analyticsService None) calm fresh_world
          (suggestions_request (Some ''Bearer ada'') 25 ''energy''))"
    and ok: "snd (post_suggestions verify_ada no_conversion (analyticsService (Some (Error ''sink down'')))
          stormy fresh_world (suggestions_request (Some ''Bearer ada'') 25 ''energy'')) =
        \<lparr>status = 200,
         json = Suggestions (io_uuid stormy)
                  (generateSuggestions (value_age \<lparr>value_age = 25, value_healthGoal = ''energy''\<rparr>)
                     (value_healthGoal \<lparr>value_age = 25, value_healthGoal = ''energy''\<rparr>) a ([]::unit list))
                  \<lparr>meta_generatedAt = io_now stormy,
                   meta_goalCategory = value_healthGoal \<lparr>value_age = 25, value_healthGoal = ''energy''\<rparr>,
                   meta_authenticated = a, meta_timestamp = io_now stormy\<rparr>\<rparr>"
    by blast
  have "status (snd (post_suggestions verify_ada no_conversion
          (analyticsService (Some (Error ''sink down''))) stormy fresh_world
          (suggestions_request (Some ''Bearer ada'') 25 ''energy''))) = 200"
    by (simp only: ok response.simps)
  moreover have "saveSuggestion stormy empty_database 1 25 ''energy'' (SuggestionList (energy 25 True)) =
     (empty_database, Inl (Error ''Failed to save suggestion''))"
    by (simp add: saveSuggestion_def stormy_def)
  moreover have "fst (logSuccessfulRequest (analyticsService (Some (Error ''sink down''))) ''energy'' 25
          fresh_counters) = Some (Error ''sink down'')"
    by (simp add: analyticsService_def)
  ultimately show ?thesis using same by blast
qed

section \<open>Properties of request validation\<close>

lemma age_rules_examples:
  "age_rules 17 = Inl (Detail ''Age must be at least 18'' ''age'')"
  "age_rules 121 = Inl (Detail ''Age must be 120 or less'' ''age'')"
  "age_rules (129 / 2) = Inl (Detail ''Age must be a whole number'' ''age'')"
  by (code_simp)+

lemma post_suggestions_age_rejected:
  assumes "body_age (req_body req) = JNum a" and "age_rules a = Inl d"
  shows "post_suggestions jv jn service io w req =
           (w, \<lparr>status = 400,
                json = Failure \<lparr>error_message = detail_message d,
                                error_code = ''VALIDATION_ERROR'',
                                error_field = Some (detail_path d),
                                error_requestId = None\<rparr>\<rparr>)"
    and "\<exists>req1 res. optionalAuth jv req = Inr req1 \<and> validateSuggestionsRequest jn req1 = Inl res"
proof -
  obtain u where auth: "optionalAuth jv req = Inr (req\<lparr>req_user := u\<rparr>)"
    using optionalAuth_next by blast
  have schema: "suggestionsSchema jn (req_body req) = Inl d"
    using assms by (simp add: suggestionsSchema_def validate_age_def)
  then have mw: "validateSuggestionsRequest jn (req\<lparr>req_user := u\<rparr>) =
      Inl \<lparr>status = 400,
           json = Failure \<lparr>error_message = detail_message d,
                           error_code = ''VALIDATION_ERROR'',
                           error_field = Some (detail_path d),
                           error_requestId = None\<rparr>\<rparr>"
    by (simp add: validateSuggestionsRequest_def)
  show "post_suggestions jv jn service io w req =
           (w, \<lparr>status = 400,
                json = Failure \<lparr>error_message = detail_message d,
                                error_code = ''VALIDATION_ERROR'',
                                error_field = Some (detail_path d),
                                error_requestId = None\<rparr>\<rparr>)"
    by (simp add: post_suggestions_def auth mw)
  show "\<exists>req1 res. optionalAuth jv req = Inr req1 \<and> validateSuggestionsRequest jn req1 = Inl res"
    using auth mw by blast
qed

text \<open>
  C9. POST /suggestions with age 17 or age 121 is answered 400 with a field-level error
  whose field is "age" and whose message names the bound; age 64.5 is answered 400 as
  not a whole number. In all three cases the validation middleware ends the request
  (it does not call next), so the handler is not reached and the state is unchanged,
  whatever the health goal and the Authorization header are.
\<close>

theorem age_outside_schema_rejected:
  assumes "body_age (req_body req) = JNum a"
  shows "(a = 17 \<longrightarrow>
            post_suggestions jv jn service io w req = (w, age_rejection ''Age must be at least 18'')) \<and>
         (a = 121 \<longrightarrow>
            post_suggestions jv jn service io w req = (w, age_rejection ''Age must be 120 or less'')) \<and>
         (a = 129 / 2 \<longrightarrow>
            post_suggestions jv jn service io w req = (w, age_rejection ''Age must be a whole number'')) \<and>
         (a = 17 \<or> a = 121 \<or> a = 129 / 2 \<longrightarrow>
            (\<exists>req1 res. optionalAuth jv req = Inr req1 \<and>
               validateSuggestionsRequest jn req1 = Inl res \<and> status res = 400))"
proof (intro conjI impI)
  assume h: "a = 17"
  have "age_rules a = Inl (Detail ''Age must be at least 18'' ''age'')"
    unfolding h by (rule age_rules_examples)
  from post_suggestions_age_rejected(1) [OF assms this]
  show "post_suggestions jv jn service io w req = (w, age_rejection ''Age must be at least 18'')"
    by (simp add: age_rejection_def)
next
  assume h: "a = 121"
  have "age_rules a = Inl (Detail ''Age must be 120 or less'' ''age'')"
    unfolding h by (rule age_rules_examples)
  from post_suggestions_age_rejected(1) [OF assms this]
  show "post_suggestions jv jn service io w req = (w, age_rejection ''Age must be 120 or less'')"
    by (simp add: age_rejection_def)
next
  assume h: "a = 129 / 2"
  have "age_rules a = Inl (Detail ''Age must be a whole number'' ''age'')"
    unfolding h by (rule age_rules_examples)
  from post_suggestions_age_rejected(1) [OF assms this]
  show "post_suggestions jv jn service io w req = (w, age_rejection ''Age must be a whole number'')"
    by (simp add: age_rejection_def)
next
  assume "a = 17 \<or> a = 121 \<or> a = 129 / 2"
  then obtain d where d: "age_rules a = Inl d"
    using age_rules_examples by blast
  obtain u where auth: "optionalAuth jv req = Inr (req\<lparr>req_user := u\<rparr>)"
    using optionalAuth_next by blast
  have "suggestionsSchema jn (req_body req) = Inl d"
    using assms d by (simp add: suggestionsSchema_def validate_age_def)
  then have "\<exists>res. validateSuggestionsRequest jn (req\<lparr>req_user := u\<rparr>) = Inl res \<and> status res = 400"
    by (simp add: validateSuggestionsRequest_def)
  with auth show "\<exists>req1 res. optionalAuth jv req = Inr req1 \<and>
      validateSuggestionsRequest jn req1 = Inl res \<and> status res = 400"
    by blast
qed

theorem age_outside_schema_rejected_witness:
  "post_suggestions verify_ada no_conversion (analyticsService None) calm fresh_world
     (suggestions_request (Some ''Bearer ada'') 17 ''energy'') =
     (fresh_world, age_rejection ''Age must be at least 18'') \<and>
   post_suggestions verify_ada no_conversion (analyticsService None) calm fresh_world
     (suggestions_request None 121 ''sleep'') =
     (fresh_world, age_rejection ''Age must be 120 or less'') \<and>
   post_suggestions verify_ada no_conversion (analyticsService None) calm fresh_world
     (suggestions_request None (129 / 2) ''no such goal'') =
     (fresh_world, age_rejection ''Age must be a whole number'')"
  using age_outside_schema_rejected
      [of "suggestions_request (Some ''Bearer ada'') 17 ''energy''" 17 verify_ada no_conversion
          "analyticsService None" calm fresh_world]
    age_outside_schema_rejected
      [of "suggestions_request None 121 ''sleep''" 121 verify_ada no_conversion
          "analyticsService None" calm fresh_world]
    age_outside_schema_rejected
      [of "suggestions_request None (129 / 2) ''no such goal''" "129 / 2" verify_ada no_conversion
          "analyticsService None" calm fresh_world]
  by (simp add: suggestions_request_def)

text \<open>
  The schema is the gate in front of the generator: a goal outside the six ends the
  request in the validation middleware with 400 on the field \<^verbatim>\<open>healthGoal\<close>, so the
  handler calls \<^verbatim>\<open>generateSuggestions\<close> with one of the six only.
\<close>

lemma post_suggestions_unknown_goal_rejected:
  assumes "validate_age jn (body_age (req_body req)) = Inr a"
      and "body_healthGoal (req_body req) = JStr g" and "g \<notin> set health_goals"
  shows "post_suggestions jv jn service io w req =
           (w, \<lparr>status = 400,
                json = Failure \<lparr>error_message = detail_message healthGoal_only,
                                error_code = ''VALIDATION_ERROR'',
                                error_field = Some ''healthGoal'',
                                error_requestId = None\<rparr>\<rparr>)"
proof -
  obtain u where auth: "optionalAuth jv req = Inr (req\<lparr>req_user := u\<rparr>)"
    using optionalAuth_next by blast
  have "suggestionsSchema jn (req_body req) = Inl healthGoal_only"
    using assms by (simp add: suggestionsSchema_def validate_healthGoal_def)
  then have "validateSuggestionsRequest jn (req\<lparr>req_user := u\<rparr>) =
      Inl \<lparr>status = 400,
           json = Failure \<lparr>error_message = detail_message healthGoal_only,
                           error_code = ''VALIDATION_ERROR'',
                           error_field = Some ''healthGoal'',
                           error_requestId = None\<rparr>\<rparr>"
    by (simp add: validateSuggestionsRequest_def healthGoal_only_def)
  then show ?thesis
    by (simp add: post_suggestions_def auth)
qed

lemma post_suggestions_goal_enumerated:
  assumes "post_suggestions jv jn service io w req = (w', \<lparr>status = 200, json = Suggestions rid sg m\<rparr>)"
  shows "meta_goalCategory m \<in> set health_goals"
proof -
  obtain u where auth: "optionalAuth jv req = Inr (req\<lparr>req_user := u\<rparr>)"
    using optionalAuth_next by blast
  show ?thesis
  proof (cases "suggestionsSchema jn (req_body req)")
    case (Inl d)
    with assms auth show ?thesis
      by (simp add: post_suggestions_def validateSuggestionsRequest_def)
  next
    case (Inr v)
    then have goal: "value_healthGoal v \<in> set health_goals"
      by (auto simp: suggestionsSchema_def validate_healthGoal_def
               split: sum.splits jsval.splits if_splits list.splits)
    let ?req2 = "\<lparr>req_authorization = req_authorization req, req_body = v, req_user = u\<rparr>"
    have "post_suggestions jv jn service io w req = suggestions_handler service io w ?req2"
      using Inr by (simp add: post_suggestions_def auth validateSuggestionsRequest_def)
    with assms have "snd (suggestions_handler service io w ?req2) =
        \<lparr>status = 200, json = Suggestions rid sg m\<rparr>"
      by simp
    then have "meta_goalCategory m = value_healthGoal v"
      by (auto simp: suggestions_handler_response)
    with goal show ?thesis by simp
  qed
qed

section \<open>Properties of the authentication middleware\<close>

text \<open>
  C5. optionalAuth never answers the request itself: it always calls next. With no
  Authorization header, with a header that lacks the Bearer prefix, and with a token
  the verifier rejects for whatever reason, it continues with req.user null; with a
  token that verifies it continues with req.user the decoded claims.
\<close>

theorem optionalAuth_never_rejects:
  "(\<exists>u. optionalAuth jv req = Inr (req\<lparr>req_user := u\<rparr>)) \<and>
   (req_authorization req = None \<longrightarrow> optionalAuth jv req = Inr (req\<lparr>req_user := None\<rparr>)) \<and>
   (\<forall>h. req_authorization req = Some h \<and> \<not> startsWith h ''Bearer '' \<longrightarrow>
        optionalAuth jv req = Inr (req\<lparr>req_user := None\<rparr>)) \<and>
   (\<forall>h e. req_authorization req = Some h \<and> jv (substring 7 h) = Inl e \<longrightarrow>
        optionalAuth jv req = Inr (req\<lparr>req_user := None\<rparr>)) \<and>
   (\<forall>h d. req_authorization req = Some h \<and> startsWith h ''Bearer '' \<and>
          jv (substring 7 h) = Inr d \<longrightarrow>
        optionalAuth jv req = Inr (req\<lparr>req_user := Some d\<rparr>))"
proof (intro conjI allI impI)
  show "\<exists>u. optionalAuth jv req = Inr (req\<lparr>req_user := u\<rparr>)"
    by (rule optionalAuth_next)
next
  assume "req_authorization req = None"
  then show "optionalAuth jv req = Inr (req\<lparr>req_user := None\<rparr>)"
    by (simp add: optionalAuth_def)
next
  fix h assume "req_authorization req = Some h \<and> \<not> startsWith h ''Bearer ''"
  then show "optionalAuth jv req = Inr (req\<lparr>req_user := None\<rparr>)"
    by (simp add: optionalAuth_def)
next
  fix h e assume "req_authorization req = Some h \<and> jv (substring 7 h) = Inl e"
  then show "optionalAuth jv req = Inr (req\<lparr>req_user := None\<rparr>)"
    by (simp add: optionalAuth_def)
next
  fix h d
  assume a: "req_authorization req = Some h \<and> startsWith h ''Bearer '' \<and> jv (substring 7 h) = Inr d"
  then have "h \<noteq> []" by auto
  with a show "optionalAuth jv req = Inr (req\<lparr>req_user := Some d\<rparr>)"
    by (simp add: optionalAuth_def)
qed

theorem optionalAuth_never_rejects_witness:
  "optionalAuth verify_ada (verify_request None) = Inr (verify_request None) \<and>
   optionalAuth verify_ada (verify_request (Some ''Basic ada'')) =
     Inr (verify_request (Some ''Basic ada'')) \<and>
   optionalAuth verify_ada (verify_request (Some ''Bearer eve'')) =
     Inr (verify_request (Some ''Bearer eve'')) \<and>
   optionalAuth verify_ada (verify_request (Some ''Bearer ada'')) =
     Inr ((verify_request (Some ''Bearer ada''))\<lparr>req_user := Some ada\<rparr>)"
  using optionalAuth_never_rejects [of verify_ada "verify_request None"]
    optionalAuth_never_rejects [of verify_ada "verify_request (Some ''Basic ada'')"]
    optionalAuth_never_rejects [of verify_ada "verify_request (Some ''Bearer eve'')"]
    optionalAuth_never_rejects [of verify_ada "verify_request (Some ''Bearer ada'')"]
  by (simp add: verify_request_def verify_ada_def substring_def)

lemma verifyToken_rejects_401:
  "(req_authorization req = None \<longrightarrow>
      verifyToken jv req = Inl (failure 401 ''Access token is required'' ''TOKEN_MISSING'')) \<and>
   (\<forall>h f. req_authorization req = Some h \<and> startsWith h ''Bearer '' \<and>
         jv (substring 7 h) = Inl (jsonwebtoken_error f) \<longrightarrow>
      (\<exists>m c. verifyToken jv req = Inl (failure 401 m c)))"
  by (auto simp: verifyToken_def split: option.splits sum.splits)

lemma verify_codes:
  "get_verify jv (verify_request None) = failure 401 ''Access token is required'' ''TOKEN_MISSING''"
  "get_verify (\<lambda>token. Inl (jsonwebtoken_error Expired)) (verify_request (Some ''Bearer h.p.s'')) =
     failure 401 ''Token has expired'' ''TOKEN_EXPIRED''"
  by (simp_all add: get_verify_def verifyToken_def verify_request_def)

text \<open>
  C2. The claim is that GET /auth/verify answers the four failure modes (token missing,
  expired, malformed, signature invalid) with 401 and four pairwise distinct codes. All
  four are answered 401 (lemmas above), but a token whose signature is invalid is
  answered with the code of a malformed token, \<^verbatim>\<open>TOKEN_MALFORMED\<close>: its error is a
  \<^verbatim>\<open>JsonWebTokenError\<close> too, and the middleware looks at the name only.
\<close>

theorem invalid_signature_answered_as_malformed:
  "get_verify (\<lambda>token. Inl (jsonwebtoken_error InvalidSignature))
     (verify_request (Some ''Bearer h.p.s'')) =
     failure 401 ''Malformed token'' ''TOKEN_MALFORMED'' \<and>
   get_verify (\<lambda>token. Inl (jsonwebtoken_error Malformed))
     (verify_request (Some ''Bearer junk'')) =
     failure 401 ''Malformed token'' ''TOKEN_MALFORMED''"
  by (simp add: get_verify_def verifyToken_def verify_request_def)

section \<open>Properties of registration and login\<close>

lemma includes_literals:
  "includes_str ''User with this email already exists'' ''already exists''"
  "\<not> includes_str ''Database error'' ''already exists''"
  "\<not> includes_str ''Failed to create user'' ''already exists''"
  "includes_str ''Invalid email or password'' ''Invalid email or password''"
  "\<not> includes_str ''Database error'' ''Invalid email or password''"
  by simp_all

lemma registerSchema_email:
  assumes "registerSchema je b = Inr v" and "register_email b = JStr e"
  shows "registered_email v = e"
  using assms
  by (auto simp: registerSchema_def validate_email_def string_base_def
           split: sum.splits list.splits if_splits)

lemma createUser_created:
  assumes "createUser h io db ud = (db', Inr u)"
  shows "find (\<lambda>x. user_email x = data_email ud) (users db) = None \<and>
         (\<exists>row. users db' = users db @ [row] \<and> user_email row = data_email ud)"
  using assms
  by (auto simp: createUser_def getUserByEmail_def insert_user_def
           split: sum.splits option.splits if_splits)

lemma createUser_existing:
  assumes "\<not> io_getErr io" and "find (\<lambda>x. user_email x = data_email ud) (users db) = Some row"
  shows "createUser h io db ud = (db, Inl (Error ''User with this email already exists''))"
  using assms by (simp add: createUser_def getUserByEmail_def)

lemma register_created:
  assumes "register lib io db body = (db', res)" and "status res = 201"
      and "register_email body = JStr e"
  shows "find (\<lambda>x. user_email x = e) (users db) = None \<and>
         (\<exists>row. users db' = users db @ [row] \<and> user_email row = e)"
proof -
  from assms(1,2) obtain v where v: "registerSchema (lib_joi_email lib) body = Inr v"
    by (cases "registerSchema (lib_joi_email lib) body") (auto simp: register_def failure_def)
  let ?ud = "\<lparr>data_email = registered_email v, data_password = registered_password v,
               data_firstName = or_empty (registered_firstName v),
               data_lastName = or_empty (registered_lastName v)\<rparr>"
  obtain db1 r where c: "createUser (lib_bcrypt_hash lib) io db ?ud = (db1, r)"
    by (cases "createUser (lib_bcrypt_hash lib) io db ?ud") blast
  from assms(1,2) v c obtain u where "r = Inr u" and "db1 = db'"
    by (cases r) (auto simp: register_def failure_def Let_def split: if_splits)
  with c have "createUser (lib_bcrypt_hash lib) io db ?ud = (db', Inr u)" by simp
  from createUser_created [OF this] registerSchema_email [OF v assms(3)]
  show ?thesis by simp
qed

text \<open>
  C6. When a registration of an email was answered 201 and POST /auth/register is
  called again with the same email and a body the schema accepts (any valid password),
  the second call is answered 409 with code EMAIL_EXISTS, it leaves the store as it was,
  and the table users holds exactly one row with that email. The lookup of the second
  call is assumed not to fail at the driver (then the answer is 500, still without a
  row).
\<close>

theorem second_registration_conflicts:
  assumes "register lib io1 db0 body1 = (db1, res1)" and "status res1 = 201"
      and "register_email body1 = JStr e"
      and "registerSchema (lib_joi_email lib) body2 = Inr v2" and "register_email body2 = JStr e"
      and "\<not> io_getErr io2"
  shows "register lib io2 db1 body2 =
           (db1, failure 409 ''An account with this email already exists'' ''EMAIL_EXISTS'') \<and>
         length (filter (\<lambda>u. user_email u = e) (users db1)) = 1"
proof -
  from register_created [OF assms(1,2,3)] obtain row
    where absent: "find (\<lambda>x. user_email x = e) (users db0) = None"
      and rows: "users db1 = users db0 @ [row]" and row: "user_email row = e"
    by blast
  from absent have none: "filter (\<lambda>u. user_email u = e) (users db0) = []"
    by (simp add: find_None_iff filter_empty_conv)
  have count: "length (filter (\<lambda>u. user_email u = e) (users db1)) = 1"
    by (simp add: rows row none)
  have "find (\<lambda>x. user_email x = e) (users db1) \<noteq> None"
    using row by (auto simp: find_None_iff rows)
  then obtain found where found: "find (\<lambda>x. user_email x = e) (users db1) = Some found"
    by blast
  have email: "registered_email v2 = e"
    by (rule registerSchema_email [OF assms(4,5)])
  let ?ud = "\<lparr>data_email = registered_email v2, data_password = registered_password v2,
               data_firstName = or_empty (registered_firstName v2),
               data_lastName = or_empty (registered_lastName v2)\<rparr>"
  have "createUser (lib_bcrypt_hash lib) io2 db1 ?ud =
          (db1, Inl (Error ''User with this email already exists''))"
    using found by (intro createUser_existing [OF assms(6)]) (simp add: email)
  then have "register lib io2 db1 body2 =
           (db1, failure 409 ''An account with this email already exists'' ''EMAIL_EXISTS'')"
    by (simp add: register_def assms(4) includes_literals)
  with count show ?thesis by simp
qed

theorem second_registration_conflicts_witness:
  "\<exists>db1 res1.
     register plain_library calm empty_database (register_request ''a@x.com'' ''Abcdef12'') =
       (db1, res1) \<and> status res1 = 201 \<and>
     register plain_library calm db1 (register_request ''a@x.com'' ''Zyxwvu98'') =
       (db1, failure 409 ''An account with this email already exists'' ''EMAIL_EXISTS'') \<and>
     length (filter (\<lambda>u. user_email u = ''a@x.com'') (users db1)) = 1"
proof -
  obtain db1 res1 where first:
      "register plain_library calm empty_database (register_request ''a@x.com'' ''Abcdef12'') =
         (db1, res1)"
    by (cases "register plain_library calm empty_database (register_request ''a@x.com'' ''Abcdef12'')")
  have created: "status res1 = 201"
    using first
    by (auto simp: register_def registerSchema_def validate_email_def validate_password_def
          validate_name_def string_base_def password_pattern_def in_range_def
          register_request_def plain_library_def createUser_def getUserByEmail_def
          insert_user_def calm_def empty_database_def Let_def)
  have valid: "registerSchema (lib_joi_email plain_library) (register_request ''a@x.com'' ''Zyxwvu98'') =
      Inr \<lparr>registered_email = ''a@x.com'', registered_password = ''Zyxwvu98'',
           registered_firstName = None, registered_lastName = None\<rparr>"
    by (simp add: registerSchema_def validate_email_def validate_password_def
          validate_name_def string_base_def password_pattern_def in_range_def
          register_request_def plain_library_def)
  have "register plain_library calm db1 (register_request ''a@x.com'' ''Zyxwvu98'') =
       (db1, failure 409 ''An account with this email already exists'' ''EMAIL_EXISTS'') \<and>
     length (filter (\<lambda>u. user_email u = ''a@x.com'') (users db1)) = 1"
    by (rule second_registration_conflicts [OF first created _ valid])
       (simp_all add: register_request_def calm_def)
  with first created show ?thesis by blast
qed



lemma login_rejects_uniformly:
  assumes "loginSchema (lib_joi_email lib) body = Inr (email, password)"
      and "authenticateUser (lib_bcrypt_compare lib) io db email password =
             Inl (Error ''Invalid email or password'')"
  shows "login lib io db body = failure 401 ''Invalid email or password'' ''INVALID_CREDENTIALS''"
  by (simp add: login_def assms includes_literals)

end
